theory Spec2Isabelle
  imports Main "HOL-Library.AList" "HOL-Library.Sublist"
begin

section \<open>Data model\<close>

text \<open>
  The workflow \<^verbatim>\<open>codeAgentFunction\<close> (the code-agent Inngest function) keeps an
  \<^verbatim>\<open>AgentState\<close> with a summary text and a mapping from file paths to file
  contents. A JavaScript object used as \<^verbatim>\<open>Record<string, string>\<close> is the
  association list of its own properties: a lookup of an own property is \<open>map_of\<close>
  and the keys that \<^verbatim>\<open>Object.keys\<close> counts are \<open>map fst\<close>. The list keeps the
  order in which the keys were first stored; JavaScript enumerates integer-like keys
  before the others, and nothing below depends on the order of the list.
\<close>

type_synonym file_map = "(string \<times> string) list"

record AgentState =
  summary :: string
  files :: file_map

text \<open>A thrown value, kept as the text that \<^verbatim>\<open>`${e}`\<close> renders for it.\<close>

type_synonym exn = string

datatype MessageRole = USER | ASSISTANT

datatype MessageType = RESULT | ERROR

text \<open>
  The nested \<^verbatim>\<open>fragment: { create: { sandboxUrl, title, files } }\<close> of a stored
  message. The fields \<^verbatim>\<open>title\<close> and \<^verbatim>\<open>files\<close> carry a prefix here, since the
  agent state and the workflow's return value have fields of the same names.
\<close>

record Fragment =
  sandboxUrl :: string
  fragment_title :: string
  fragment_files :: file_map

text \<open>
  A row of the message table, with the columns the workflow reads or writes. The
  \<^verbatim>\<open>type\<close> column is \<open>mtype\<close>; \<open>createdAt\<close> is the creation time the
  database assigns, as a number.
\<close>

record Message =
  projectId :: string
  content :: string
  role :: MessageRole
  mtype :: MessageType
  createdAt :: nat
  fragment :: "Fragment option"

text \<open>
  A message of the agent library as the workflow builds it:
  \<^verbatim>\<open>{ type: "text", role, content }\<close>.
\<close>

datatype AgentRole = assistant | user

datatype AgentMessage = TextMessage (agent_role: AgentRole) (text_content: string)

section \<open>Loading the previous messages\<close>

text \<open>
  \<^verbatim>\<open>prisma.message.findMany({ where: { projectId }, orderBy: { createdAt: "desc" },
  take })\<close>: the rows of the project, newest first, at most \<open>n\<close> of them.
\<close>

definition findMany :: "Message list \<Rightarrow> string \<Rightarrow> nat \<Rightarrow> Message list" where
  "findMany db pid n =
     take n (rev (sort_key createdAt (filter (\<lambda>m. projectId m = pid) db)))"

definition formatMessage :: "Message \<Rightarrow> AgentMessage" where
  "formatMessage message =
     TextMessage (if role message = ASSISTANT then assistant else user) (content message)"

text \<open>The \<^verbatim>\<open>for (const message of messages) formattedMessages.push(...)\<close> loop.\<close>

fun push_formatted :: "AgentMessage list \<Rightarrow> Message list \<Rightarrow> AgentMessage list" where
  "push_formatted formattedMessages [] = formattedMessages"
| "push_formatted formattedMessages (message # messages) =
     push_formatted (formattedMessages @ [formatMessage message]) messages"

definition get_previous_messages :: "Message list \<Rightarrow> string \<Rightarrow> AgentMessage list" where
  "get_previous_messages db pid = rev (push_formatted [] (findMany db pid 10))"

section \<open>Exceptions and steps\<close>

text \<open>
  An \<^verbatim>\<open>await\<close> of a call that may throw: the outcome is \<open>Inl e\<close> when the call
  threw \<open>e\<close>, and the rest of the function runs on the value otherwise.
\<close>

definition await :: "exn + 'a \<Rightarrow> ('a \<Rightarrow> exn + 'b) \<Rightarrow> exn + 'b" where
  "await outcome rest = (case outcome of Inl e \<Rightarrow> Inl e | Inr v \<Rightarrow> rest v)"

text \<open>\<^verbatim>\<open>try { body } catch (e) { handler }\<close>.\<close>

definition try_catch :: "exn + 'a \<Rightarrow> (exn \<Rightarrow> exn + 'a) \<Rightarrow> exn + 'a" where
  "try_catch body handler = (case body of Inl e \<Rightarrow> handler e | Inr v \<Rightarrow> Inr v)"

section \<open>The tools of the code agent\<close>

text \<open>
  The result of \<^verbatim>\<open>sandbox.commands.run\<close>. The helper \<^verbatim>\<open>getSandbox\<close> and the
  sandbox client are parameters of the tools: \<open>getSandbox\<close> connects to a sandbox by
  its id, \<open>commands_run\<close> runs a command and \<open>files_write\<close> writes a file, giving
  the sandbox afterwards; each may throw.

  A tool handler receives the optional step tooling of the workflow engine; \<open>step\<close>
  says whether it is there. \<^verbatim>\<open>step?.run(name, body)\<close> runs the body and gives its
  value when it is, and gives \<^verbatim>\<open>undefined\<close> without running the body when it is
  not. Inside the workflow the tooling is there.
\<close>

record CommandResult =
  stdout :: string
  stderr :: string
  exitCode :: int

definition terminalTool ::
  "bool \<Rightarrow> (string \<Rightarrow> exn + 'sb) \<Rightarrow> ('sb \<Rightarrow> string \<Rightarrow> exn + CommandResult) \<Rightarrow>
   string \<Rightarrow> string \<Rightarrow> exn + string option" where
  "terminalTool step getSandbox commands_run sandboxId command =
     (if \<not> step then Inr None
      else
        try_catch
          (await (getSandbox sandboxId) (\<lambda>sandbox.
           await (commands_run sandbox command) (\<lambda>result.
           Inr (Some (stdout result)))))
          (\<lambda>e. Inr (Some (''Command failed: '' @ e))))"

text \<open>
  The assignment \<^verbatim>\<open>currentFiles[file.path] = file.content\<close> on a plain object,
  with a string as content. The key \<^verbatim>\<open>__proto__\<close> reaches the setter that
  \<^verbatim>\<open>Object.prototype\<close> has for it, which ignores a value that is not an object, so
  no own property is made and the object stays as it is. Every other key is made or
  overwritten as an own property.
\<close>

definition set_property :: "string \<Rightarrow> string \<Rightarrow> file_map \<Rightarrow> file_map" where
  "set_property path text obj =
     (if path = ''__proto__'' then obj else AList.update path text obj)"

text \<open>
  The loop of \<^verbatim>\<open>createOrUpdateFiles\<close>: each file is written to the sandbox and
  then stored in \<^verbatim>\<open>currentFiles\<close>, which is the object of the shared state itself,
  so the entries stored before a write throws stay in it.
\<close>

fun write_files ::
  "('sb \<Rightarrow> string \<Rightarrow> string \<Rightarrow> exn + 'sb) \<Rightarrow> 'sb \<Rightarrow> (string \<times> string) list \<Rightarrow>
   file_map \<Rightarrow> (exn + unit) \<times> file_map" where
  "write_files files_write sandbox [] currentFiles = (Inr (), currentFiles)"
| "write_files files_write sandbox ((path, text) # rest) currentFiles =
     (case files_write sandbox path text of
        Inl e \<Rightarrow> (Inl e, currentFiles)
      | Inr sandbox' \<Rightarrow>
          write_files files_write sandbox' rest (set_property path text currentFiles))"

definition createOrUpdateFilesTool ::
  "bool \<Rightarrow> (string \<Rightarrow> exn + 'sb) \<Rightarrow> ('sb \<Rightarrow> string \<Rightarrow> string \<Rightarrow> exn + 'sb) \<Rightarrow>
   string \<Rightarrow> (string \<times> string) list \<Rightarrow> AgentState \<Rightarrow> (exn + unit) \<times> AgentState" where
  "createOrUpdateFilesTool step getSandbox files_write sandboxId file_list st =
     (if \<not> step then (Inr (), st)
      else
        (case getSandbox sandboxId of
           Inl e \<Rightarrow> (Inl e, st)
         | Inr sandbox \<Rightarrow>
             (case write_files files_write sandbox file_list (files st) of
                (Inl e, currentFiles) \<Rightarrow> (Inl e, st\<lparr>files := currentFiles\<rparr>)
              | (Inr u, updatedFiles) \<Rightarrow> (Inr (), st\<lparr>files := updatedFiles\<rparr>))))"


text \<open>
  The \<^verbatim>\<open>onResponse\<close> hook of the code agent, on the text of the last assistant
  message (if there is one): a text with the marker becomes the summary.
\<close>

definition onResponse :: "string option \<Rightarrow> AgentState \<Rightarrow> AgentState" where
  "onResponse last_text st =
     (case last_text of
        None \<Rightarrow> st
      | Some t \<Rightarrow> if sublist ''<task_summary>'' t then st\<lparr>summary := t\<rparr> else st)"

section \<open>The network and its router\<close>

datatype agent = codeAgent

text \<open>
  \<^verbatim>\<open>router: async ({ network }) => { if (network.state.data.summary) return;
  return codeAgent; }\<close>. A string is truthy exactly when it is not empty.
\<close>

definition router :: "AgentState \<Rightarrow> agent option" where
  "router st = (if summary st \<noteq> [] then None else Some codeAgent)"

definition maxIter :: nat where
  "maxIter = 15"

datatype network_status = completed | capped

text \<open>
  Modelled from the spec: the run loop of the agent network
  (\<^verbatim>\<open>createNetwork(...).run\<close>), which belongs to the agent library and is not among
  the sources. The spec: a bounded iteration loop that invokes the agent until the
  completion marker appears in the shared state or the iteration cap is reached; the
  transition rule is evaluated once per iteration; the router yielding no next agent
  ends the run as completed, reaching the cap ends it as capped with the state
  accumulated so far. The router and the cap are arguments, \<open>turn\<close> says what the
  agent's turn with number \<open>counter\<close> does to the state, and the result carries
  the number of turns taken.
\<close>

function network_loop ::
  "(AgentState \<Rightarrow> agent option) \<Rightarrow> nat \<Rightarrow> (nat \<Rightarrow> agent \<Rightarrow> AgentState \<Rightarrow> AgentState) \<Rightarrow>
   nat \<Rightarrow> AgentState \<Rightarrow> network_status \<times> nat \<times> AgentState" where
  "network_loop route cap turn counter st =
     (case route st of
        None \<Rightarrow> (completed, counter, st)
      | Some a \<Rightarrow>
          if counter < cap
          then network_loop route cap turn (Suc counter) (turn counter a st)
          else (capped, counter, st))"
  by pat_completeness auto
termination
  by (relation "measure (\<lambda>(route, cap, turn, counter, st). cap - counter)") auto

declare network_loop.simps [simp del]

section \<open>Result assembly and persistence\<close>

definition isError :: "AgentState \<Rightarrow> bool" where
  "isError result = (summary result = [] \<or> length (map fst (files result)) = 0)"

text \<open>
  The template literal \<^verbatim>\<open>`https:\\${sandbox.getHost(3000)}`\<close>: the escape
  \<^verbatim>\<open>\\\<close> is one backslash (character 0x5C), followed by the host.
\<close>

definition get_sandbox_url ::
  "(string \<Rightarrow> exn + 'sb) \<Rightarrow> ('sb \<Rightarrow> nat \<Rightarrow> string) \<Rightarrow> string \<Rightarrow> exn + string" where
  "get_sandbox_url getSandbox getHost sandboxId =
     await (getSandbox sandboxId) (\<lambda>sandbox.
     Inr (''https:'' @ [CHR 0x5C] @ getHost sandbox 3000))"

text \<open>
  \<^verbatim>\<open>prisma.message.create({ data })\<close> adds one row; the database gives it the
  creation time \<open>now\<close>.
\<close>

definition message_create ::
  "nat \<Rightarrow> string \<Rightarrow> string \<Rightarrow> MessageRole \<Rightarrow> MessageType \<Rightarrow> Fragment option \<Rightarrow>
   Message list \<Rightarrow> Message list" where
  "message_create now pid text r t frag db =
     db @ [\<lparr>projectId = pid, content = text, role = r, mtype = t, createdAt = now,
            fragment = frag\<rparr>]"

text \<open>
  The step \<^verbatim>\<open>save-result\<close>. The two arguments \<open>response_text\<close> and
  \<open>title_text\<close> are \<^verbatim>\<open>parseAgentOutput(responseOutput)\<close> and
  \<^verbatim>\<open>parseAgentOutput(fragmentTitleOutput)\<close>.
\<close>

definition save_result ::
  "bool \<Rightarrow> nat \<Rightarrow> string \<Rightarrow> string \<Rightarrow> string \<Rightarrow> string \<Rightarrow> AgentState \<Rightarrow>
   Message list \<Rightarrow> Message list" where
  "save_result isErr now pid url response_text title_text result db =
     (if isErr
      then message_create now pid ''Something went wrong. Please try again.''
             ASSISTANT ERROR None db
      else message_create now pid response_text ASSISTANT RESULT
             (Some \<lparr>sandboxUrl = url, fragment_title = title_text,
                     fragment_files = files result\<rparr>) db)"

text \<open>
  The return value \<^verbatim>\<open>{ url, title, files, summary }\<close> of the workflow (the fields
  \<^verbatim>\<open>files\<close> and \<^verbatim>\<open>summary\<close> with a prefix).
\<close>

record WorkflowResult =
  url :: string
  title :: string
  result_files :: file_map
  result_summary :: string

section \<open>The workflow\<close>

text \<open>
  What the workflow calls outside this file: the sandbox service, the agent network of the
  agent library (given the router, the cap, the prompt, the previous messages and the
  initial state, it gives the final state), the two single-shot agents, the helper
  \<^verbatim>\<open>parseAgentOutput\<close>, the constant \<^verbatim>\<open>SANDBOX_TIMEOUT\<close>, and the clock of the
  database. Each call that may throw has an outcome in \<open>exn + _\<close>.
\<close>

record ('sb, 'out) env =
  Sandbox_create :: "string \<Rightarrow> exn + 'sb"
  setTimeout :: "'sb \<Rightarrow> nat \<Rightarrow> exn + unit"
  sandboxId_of :: "'sb \<Rightarrow> string"
  SANDBOX_TIMEOUT :: nat
  getSandbox :: "string \<Rightarrow> exn + 'sb"
  getHost :: "'sb \<Rightarrow> nat \<Rightarrow> string"
  network_run ::
    "(AgentState \<Rightarrow> agent option) \<Rightarrow> nat \<Rightarrow> string \<Rightarrow> AgentMessage list \<Rightarrow> AgentState \<Rightarrow>
     exn + AgentState"
  fragmentTitleGenerator_run :: "string \<Rightarrow> exn + 'out"
  responseGenerator_run :: "string \<Rightarrow> exn + 'out"
  parse_output :: "'out \<Rightarrow> string"
  now :: nat

definition get_sandbox_id :: "('sb, 'out) env \<Rightarrow> exn + string" where
  "get_sandbox_id env =
     await (Sandbox_create env ''codeassist-nextjs-test-2'') (\<lambda>sandbox.
     await (setTimeout env sandbox (SANDBOX_TIMEOUT env)) (\<lambda>_.
     Inr (sandboxId_of env sandbox)))"

definition initial_state :: AgentState where
  "initial_state = \<lparr>summary = [], files = []\<rparr>"

definition codeAgentFunction ::
  "('sb, 'out) env \<Rightarrow> string \<Rightarrow> string \<Rightarrow> Message list \<Rightarrow>
   exn + (Message list \<times> WorkflowResult)" where
  "codeAgentFunction env pid prompt db =
     await (get_sandbox_id env) (\<lambda>sandboxId.
     let previousMessages = get_previous_messages db pid in
     await (network_run env router maxIter prompt previousMessages initial_state) (\<lambda>result.
     await (fragmentTitleGenerator_run env (summary result)) (\<lambda>fragmentTitleOutput.
     await (responseGenerator_run env (summary result)) (\<lambda>responseOutput.
     let isErr = isError result in
     await (get_sandbox_url (getSandbox env) (getHost env) sandboxId) (\<lambda>url'.
     Inr (save_result isErr (now env) pid url' (parse_output env responseOutput)
            (parse_output env fragmentTitleOutput) result db,
          \<lparr>url = url', title = ''Fragment'', result_files = files result,
            result_summary = summary result\<rparr>))))))"

section \<open>The output parser\<close>

text \<open>
  Modelled from the spec: the helper \<^verbatim>\<open>parseAgentOutput\<close> of the module
  \<^verbatim>\<open>./utils\<close>, which is not among the sources. The spec: the outputs of the two
  single-shot agents go through a shared extraction routine that takes either plain text
  or a tagged/structured envelope and returns the literal text in either case. An output
  is a plain text or an envelope with a tag around a text.
\<close>

datatype agent_output = Plain string | Envelope string string

fun parseAgentOutput :: "agent_output \<Rightarrow> string" where
  "parseAgentOutput (Plain t) = t"
| "parseAgentOutput (Envelope tag t) = t"

section \<open>Example runs\<close>

text \<open>
  A concrete environment for evaluating the workflow: the sandbox is its id, every call
  of the sandbox service succeeds, and the network ends in the given final state.
\<close>

definition example_env :: "AgentState \<Rightarrow> (string, string) env" where
  "example_env final =
     \<lparr>Sandbox_create = (\<lambda>template. Inr ''sbx1''),
      setTimeout = (\<lambda>sandbox t. Inr ()),
      sandboxId_of = (\<lambda>sandbox. sandbox),
      SANDBOX_TIMEOUT = 1800000,
      getSandbox = (\<lambda>sandboxId. Inr sandboxId),
      getHost = (\<lambda>sandbox port. ''3000-'' @ sandbox @ ''.e2b.app''),
      network_run = (\<lambda>route cap prompt messages st. Inr final),
      fragmentTitleGenerator_run = (\<lambda>s. Inr ''Hello Page''),
      responseGenerator_run = (\<lambda>s. Inr ''I built a hello world page.''),
      parse_output = (\<lambda>out. out),
      now = 7\<rparr>"

text \<open>The agent wrote one file and gave its summary.\<close>

definition example_done_state :: AgentState where
  "example_done_state =
     \<lparr>summary = ''<task_summary>Built a page.</task_summary>'',
      files = [(''pages/index.js'', ''hello'')]\<rparr>"

text \<open>
  The agent wrote one file with the tool \<^verbatim>\<open>createOrUpdateFiles\<close> and never gave a
  summary.
\<close>

definition example_capped_state :: AgentState where
  "example_capped_state =
     snd (createOrUpdateFilesTool True (\<lambda>sandboxId. Inr sandboxId)
            (\<lambda>sandbox path text. Inr sandbox) ''sbx1'' [(''pages/index.js'', ''hello'')]
            initial_state)"

text \<open>
  An agent that answers without the marker twice and gives its summary in its third turn.
\<close>

definition example_turn :: "nat \<Rightarrow> agent \<Rightarrow> AgentState \<Rightarrow> AgentState" where
  "example_turn counter a st =
     onResponse (Some (if counter = 2 then ''<task_summary>ok</task_summary>'' else ''working''))
       st"

section \<open>Properties of the loaded context\<close>

lemma push_formatted_map:
  "push_formatted acc ms = acc @ map formatMessage ms"
  by (induction ms arbitrary: acc) simp_all

lemma rev_findMany:
  "rev (findMany db pid n) =
     (let xs = sort_key createdAt (filter (\<lambda>m. projectId m = pid) db)
      in drop (length xs - n) xs)"
  by (simp add: findMany_def rev_take Let_def)

lemma sorted_rev_findMany:
  "sorted (map createdAt (rev (findMany db pid n)))"
proof -
  let ?xs = "sort_key createdAt (filter (\<lambda>m. projectId m = pid) db)"
  have "sorted (map createdAt ?xs)"
    by (rule sorted_sort_key)
  then have "sorted (drop (length ?xs - n) (map createdAt ?xs))"
    by (rule sorted_wrt_drop)
  then show ?thesis
    by (simp add: rev_findMany Let_def drop_map)
qed

text \<open>
  C5. Whatever the stored conversation, the loaded context has at most 10 messages; it
  is the reversal of the fetch (creation time descending, take 10) with each row turned
  into a text message, which is the last 10 rows of the project in chronological order
  (oldest first); a message's role is assistant exactly when the stored role is
  ASSISTANT, and its content is the stored content.
\<close>

theorem previous_messages_chronological:
  "length (get_previous_messages db pid) \<le> 10
   \<and> get_previous_messages db pid = rev (map formatMessage (findMany db pid 10))
   \<and> get_previous_messages db pid = map formatMessage (rev (findMany db pid 10))
   \<and> rev (findMany db pid 10) =
       (let xs = sort_key createdAt (filter (\<lambda>m. projectId m = pid) db)
        in drop (length xs - 10) xs)
   \<and> sorted (map createdAt (rev (findMany db pid 10)))
   \<and> ((agent_role (formatMessage m) = assistant) = (role m = ASSISTANT))
   \<and> text_content (formatMessage m) = content m"
proof -
  have len: "length (findMany db pid 10) \<le> 10"
    by (simp add: findMany_def)
  have eq: "get_previous_messages db pid = rev (map formatMessage (findMany db pid 10))"
    by (simp add: get_previous_messages_def push_formatted_map)
  have eq': "get_previous_messages db pid = map formatMessage (rev (findMany db pid 10))"
    by (simp add: eq rev_map)
  have role_iff: "(agent_role (formatMessage m) = assistant) = (role m = ASSISTANT)"
    by (simp add: formatMessage_def)
  have same_content: "text_content (formatMessage m) = content m"
    by (simp add: formatMessage_def)
  have "length (get_previous_messages db pid) \<le> 10"
    using len by (simp add: eq)
  with eq eq' role_iff same_content rev_findMany [of db pid 10] sorted_rev_findMany [of db pid 10]
  show ?thesis
    by blast
qed

section \<open>Properties of the tools\<close>

text \<open>
  C7. The terminal handler never ends in an exception, whatever the sandbox does. With the
  step tooling there: when the sandbox is reached and the command succeeds, the result
  is the command's standard output; when connecting or running the command throws
  \<open>e\<close>, the result is the text "Command failed: " followed by \<open>e\<close>.
\<close>

theorem terminalTool_never_throws:
  "(\<exists>v. terminalTool step connect commands_run sandboxId command = Inr v)
   \<and> (step \<and> connect sandboxId = Inr sandbox \<and> commands_run sandbox command = Inr result \<longrightarrow>
        terminalTool step connect commands_run sandboxId command = Inr (Some (stdout result)))
   \<and> (step \<and> connect sandboxId = Inr sandbox \<and> commands_run sandbox command = Inl e \<longrightarrow>
        terminalTool step connect commands_run sandboxId command
          = Inr (Some (''Command failed: '' @ e)))
   \<and> (step \<and> connect sandboxId = Inl e \<longrightarrow>
        terminalTool step connect commands_run sandboxId command
          = Inr (Some (''Command failed: '' @ e)))"
  by (auto simp: terminalTool_def try_catch_def await_def split: sum.splits)

theorem terminalTool_never_throws_witness:
  "terminalTool True (\<lambda>sandboxId. Inr sandboxId)
     (\<lambda>sandbox command. Inr \<lparr>stdout = ''ok'', stderr = [], exitCode = 0\<rparr>) ''sbx1'' ''ls''
     = Inr (Some ''ok'')
   \<and> terminalTool True (\<lambda>sandboxId. Inr sandboxId)
       (\<lambda>sandbox command. Inl ''Error: exit status 1'') ''sbx1'' ''npm run build''
     = Inr (Some ''Command failed: Error: exit status 1'')
   \<and> terminalTool True (\<lambda>sandboxId. (Inl ''Error: sandbox not found'' :: exn + string))
       (\<lambda>sandbox command. Inr \<lparr>stdout = ''ok'', stderr = [], exitCode = 0\<rparr>) ''sbx1'' ''ls''
     = Inr (Some ''Command failed: Error: sandbox not found'')"
proof -
  let ?gs = "\<lambda>sandboxId :: string. (Inr sandboxId :: exn + string)"
  let ?bad = "\<lambda>sandboxId :: string. (Inl ''Error: sandbox not found'' :: exn + string)"
  let ?res = "\<lparr>stdout = ''ok'', stderr = [], exitCode = 0\<rparr>"
  let ?run = "\<lambda>(sandbox :: string) (command :: string). (Inr ?res :: exn + CommandResult)"
  let ?fail = "\<lambda>(sandbox :: string) (command :: string).
                 (Inl ''Error: exit status 1'' :: exn + CommandResult)"
  from terminalTool_never_throws [where step = True and connect = ?gs and commands_run = ?run
      and sandboxId = "''sbx1''" and command = "''ls''" and sandbox = "''sbx1''"
      and result = ?res]
    terminalTool_never_throws [where step = True and connect = ?gs and commands_run = ?fail
      and sandboxId = "''sbx1''" and command = "''npm run build''"
      and sandbox = "''sbx1''" and e = "''Error: exit status 1''"]
    terminalTool_never_throws [where step = True and connect = ?bad and commands_run = ?run
      and sandboxId = "''sbx1''" and command = "''ls''"
      and e = "''Error: sandbox not found''"]
  show ?thesis
    by simp
qed









section \<open>Properties of the router and the network\<close>

text \<open>
  C3. The router gives no next agent exactly when the summary is not empty, and gives
  the code agent exactly when the summary is empty; it gives nothing else.
\<close>

theorem router_stops_on_summary:
  "(router st = None) = (summary st \<noteq> [])
   \<and> (router st = Some codeAgent) = (summary st = [])
   \<and> (router st = None \<or> router st = Some codeAgent)"
  by (simp add: router_def)

lemma network_loop_inv:
  "network_loop route cap turn counter st = (status, n, st') \<Longrightarrow> counter \<le> cap \<Longrightarrow>
   counter \<le> n \<and> n \<le> cap \<and>
   ((status = completed \<and> route st' = None) \<or> (status = capped \<and> n = cap \<and> route st' \<noteq> None))"
proof (induction route cap turn counter st rule: network_loop.induct)
  case (1 route cap turn counter st)
  show ?case
  proof (cases "route st")
    case None
    with "1.prems" show ?thesis by (simp add: network_loop.simps [of route cap turn counter st])
  next
    case (Some a)
    show ?thesis
    proof (cases "counter < cap")
      case True
      with Some "1.prems" have
        "network_loop route cap turn (Suc counter) (turn counter a st) = (status, n, st')"
        by (simp add: network_loop.simps [of route cap turn counter st])
      from "1.IH" [OF Some True this] True show ?thesis by simp
    next
      case False
      with Some "1.prems" show ?thesis
        by (auto simp: network_loop.simps [of route cap turn counter st])
    qed
  qed
qed

text \<open>
  C4. For a cap of at least 1, the loop started at turn 0 returns: it has taken at most
  cap turns, and it ends as completed with the summary set, or as capped after exactly
  cap turns with the summary still empty and the state the turns have built.
\<close>

theorem network_loop_bounded:
  assumes "1 \<le> cap"
  shows "\<exists>status n st'.
           network_loop router cap turn 0 st = (status, n, st') \<and> n \<le> cap
           \<and> ((status = completed \<and> summary st' \<noteq> [])
              \<or> (status = capped \<and> n = cap \<and> summary st' = []))"
proof -
  obtain status n st' where run: "network_loop router cap turn 0 st = (status, n, st')"
    by (cases "network_loop router cap turn 0 st") auto
  from network_loop_inv [OF run] have
    "n \<le> cap \<and> ((status = completed \<and> router st' = None)
                \<or> (status = capped \<and> n = cap \<and> router st' \<noteq> None))"
    by simp
  then have "n \<le> cap \<and> ((status = completed \<and> summary st' \<noteq> [])
                \<or> (status = capped \<and> n = cap \<and> summary st' = []))"
    by (auto simp: router_def split: if_splits)
  with run show ?thesis by blast
qed

lemma example_network_run:
  "network_loop router maxIter example_turn 0 initial_state =
     (completed, 3, \<lparr>summary = ''<task_summary>ok</task_summary>'', files = []\<rparr>)"
  by code_simp

theorem network_loop_bounded_witness:
  "1 \<le> maxIter
   \<and> network_loop router maxIter example_turn 0 initial_state =
       (completed, 3, \<lparr>summary = ''<task_summary>ok</task_summary>'', files = []\<rparr>)
   \<and> (3::nat) \<le> maxIter"
proof -
  have cap: "1 \<le> maxIter"
    by (simp add: maxIter_def)
  from network_loop_bounded [OF cap, of example_turn initial_state] cap example_network_run
  show ?thesis
    by simp
qed

section \<open>Properties of the output parser\<close>

text \<open>
  C9. The parser gives the same text for a plain output and for an envelope of that
  text, which is the text itself; parsing the plain output made of a parsed text gives
  that text again.
\<close>

theorem parseAgentOutput_plain_or_envelope:
  "parseAgentOutput (Plain t) = t
   \<and> parseAgentOutput (Envelope tag t) = parseAgentOutput (Plain t)
   \<and> parseAgentOutput (Plain (parseAgentOutput x)) = parseAgentOutput x"
  by simp

section \<open>Properties of the workflow\<close>

text \<open>
  A run of the workflow that returns went through every step: the sandbox id, the final
  state of the network, the two outputs and the sandbox URL exist, the database is the
  old one after \<^verbatim>\<open>save-result\<close>, and the return value is built from the URL and
  the final state.
\<close>

lemma codeAgentFunction_Inr:
  assumes "codeAgentFunction env pid prompt db = Inr (db', ret)"
  shows "\<exists>sid result t r u.
     get_sandbox_id env = Inr sid \<and>
     network_run env router maxIter prompt (get_previous_messages db pid) initial_state = Inr result \<and>
     fragmentTitleGenerator_run env (summary result) = Inr t \<and>
     responseGenerator_run env (summary result) = Inr r \<and>
     get_sandbox_url (getSandbox env) (getHost env) sid = Inr u \<and>
     db' = save_result (isError result) (now env) pid u (parse_output env r)
             (parse_output env t) result db \<and>
     ret = \<lparr>url = u, title = ''Fragment'', result_files = files result,
             result_summary = summary result\<rparr>"
  using assms
  by (auto simp: codeAgentFunction_def await_def Let_def split: sum.splits)

lemma example_capped_state_eq:
  "example_capped_state = \<lparr>summary = [], files = [(''pages/index.js'', ''hello'')]\<rparr>"
  by (simp add: example_capped_state_def createOrUpdateFilesTool_def set_property_def
      initial_state_def)

lemma example_run_done:
  "codeAgentFunction (example_env example_done_state) ''p1'' ''create a hello world page'' [] =
     Inr ([\<lparr>projectId = ''p1'', content = ''I built a hello world page.'', role = ASSISTANT,
            mtype = RESULT, createdAt = 7,
            fragment = Some \<lparr>sandboxUrl = ''https:'' @ [CHR 0x5C] @ ''3000-sbx1.e2b.app'',
                             fragment_title = ''Hello Page'',
                             fragment_files = [(''pages/index.js'', ''hello'')]\<rparr>\<rparr>],
          \<lparr>url = ''https:'' @ [CHR 0x5C] @ ''3000-sbx1.e2b.app'', title = ''Fragment'',
            result_files = [(''pages/index.js'', ''hello'')],
            result_summary = ''<task_summary>Built a page.</task_summary>''\<rparr>)"
  by (simp add: codeAgentFunction_def await_def get_sandbox_id_def example_env_def
      get_sandbox_url_def save_result_def message_create_def isError_def
      get_previous_messages_def findMany_def example_done_state_def)

lemma example_run_capped:
  "codeAgentFunction (example_env example_capped_state) ''p1'' ''create a hello world page'' [] =
     Inr ([\<lparr>projectId = ''p1'', content = ''Something went wrong. Please try again.'',
            role = ASSISTANT, mtype = ERROR, createdAt = 7, fragment = None\<rparr>],
          \<lparr>url = ''https:'' @ [CHR 0x5C] @ ''3000-sbx1.e2b.app'', title = ''Fragment'',
            result_files = [(''pages/index.js'', ''hello'')],
            result_summary = []\<rparr>)"
  by (simp add: codeAgentFunction_def await_def get_sandbox_id_def example_env_def
      get_sandbox_url_def save_result_def message_create_def isError_def
      get_previous_messages_def findMany_def example_capped_state_eq)

lemma example_net:
  "network_run (example_env final) router maxIter prompt msgs initial_state = Inr final"
  by (simp add: example_env_def)

text \<open>
  C1. In a run that returns with the final state \<open>st\<close> of the network, the run is
  classified as failed exactly when the summary is empty or the file mapping has no
  entry. The run adds exactly one message, of the assistant. A failed run stores it with
  type ERROR and no fragment; any other run stores it with type RESULT and one fragment
  with the sandbox URL, a title and the final file mapping. So the message has a fragment
  exactly when the summary and the file mapping are both not empty.
\<close>

theorem run_failed_iff_no_fragment:
  assumes run: "codeAgentFunction env pid prompt db = Inr (db', ret)"
    and net: "network_run env router maxIter prompt (get_previous_messages db pid)
                initial_state = Inr st"
  shows "isError st = (summary st = [] \<or> files st = [])
    \<and> (\<exists>m. db' = db @ [m] \<and> projectId m = pid \<and> role m = ASSISTANT
          \<and> (isError st \<longrightarrow> mtype m = ERROR \<and> fragment m = None)
          \<and> (\<not> isError st \<longrightarrow> mtype m = RESULT
                \<and> (\<exists>t. fragment m = Some \<lparr>sandboxUrl = url ret, fragment_title = t,
                                            fragment_files = files st\<rparr>))
          \<and> ((fragment m \<noteq> None) = (summary st \<noteq> [] \<and> files st \<noteq> [])))"
proof -
  from codeAgentFunction_Inr [OF run] net obtain t r u where
    db': "db' = save_result (isError st) (now env) pid u (parse_output env r)
                  (parse_output env t) st db" and
    ret: "ret = \<lparr>url = u, title = ''Fragment'', result_files = files st,
                  result_summary = summary st\<rparr>"
    by auto
  have cls: "isError st = (summary st = [] \<or> files st = [])"
    by (simp add: isError_def)
  show ?thesis
  proof (cases "isError st")
    case True
    with cls db' show ?thesis
      by (auto simp: save_result_def message_create_def)
  next
    case False
    with cls db' ret show ?thesis
      by (auto simp: save_result_def message_create_def)
  qed
qed

theorem run_failed_iff_no_fragment_witness:
  "(\<exists>db' ret.
      codeAgentFunction (example_env example_done_state) ''p1'' ''create a hello world page'' []
        = Inr (db', ret)
      \<and> \<not> isError example_done_state
      \<and> (\<exists>m. db' = [m] \<and> mtype m = RESULT
            \<and> fragment m = Some \<lparr>sandboxUrl = url ret, fragment_title = ''Hello Page'',
                                  fragment_files = [(''pages/index.js'', ''hello'')]\<rparr>))
   \<and> (\<exists>db' ret.
      codeAgentFunction (example_env example_capped_state) ''p1'' ''create a hello world page'' []
        = Inr (db', ret)
      \<and> isError example_capped_state
      \<and> (\<exists>m. db' = [m] \<and> mtype m = ERROR \<and> fragment m = None))"
  using run_failed_iff_no_fragment [OF example_run_done example_net]
    run_failed_iff_no_fragment [OF example_run_capped example_net]
    example_run_done example_run_capped
  by (simp add: example_done_state_def example_capped_state_eq isError_def)

text \<open>
  C2, as stated, fails: a run in which the agent wrote one file and never gave a summary
  is classified as failed, and the value it returns carries that file with its content.
\<close>

theorem failed_run_exposes_files_counterexample:
  "isError example_capped_state
   \<and> network_run (example_env example_capped_state) router maxIter
        ''create a hello world page'' (get_previous_messages [] ''p1'') initial_state
       = Inr example_capped_state
   \<and> codeAgentFunction (example_env example_capped_state) ''p1'' ''create a hello world page'' []
       = Inr ([\<lparr>projectId = ''p1'', content = ''Something went wrong. Please try again.'',
                role = ASSISTANT, mtype = ERROR, createdAt = 7, fragment = None\<rparr>],
              \<lparr>url = ''https:'' @ [CHR 0x5C] @ ''3000-sbx1.e2b.app'', title = ''Fragment'',
                result_files = [(''pages/index.js'', ''hello'')], result_summary = []\<rparr>)"
  using example_run_capped example_net [of example_capped_state]
  by (simp add: example_capped_state_eq isError_def)

text \<open>
  C2, amended. A failed run stores the fixed text "Something went wrong. Please try
  again." as an ERROR message with no fragment, so it persists no file content; the value
  it returns carries the final file mapping and the final summary as they are.
\<close>

theorem failed_run_fixed_message:
  assumes run: "codeAgentFunction env pid prompt db = Inr (db', ret)"
    and net: "network_run env router maxIter prompt (get_previous_messages db pid)
                initial_state = Inr st"
    and failed: "isError st"
  shows "\<exists>m. db' = db @ [m]
          \<and> content m = ''Something went wrong. Please try again.''
          \<and> mtype m = ERROR \<and> fragment m = None
          \<and> result_files ret = files st \<and> result_summary ret = summary st"
proof -
  from codeAgentFunction_Inr [OF run] net obtain t r u where
    db': "db' = save_result (isError st) (now env) pid u (parse_output env r)
                  (parse_output env t) st db" and
    ret: "ret = \<lparr>url = u, title = ''Fragment'', result_files = files st,
                  result_summary = summary st\<rparr>"
    by auto
  from db' ret failed show ?thesis
    by (simp add: save_result_def message_create_def)
qed

theorem failed_run_fixed_message_witness:
  "isError example_capped_state
   \<and> (\<exists>m ret. codeAgentFunction (example_env example_capped_state) ''p1''
                  ''create a hello world page'' [] = Inr ([m], ret)
          \<and> content m = ''Something went wrong. Please try again.''
          \<and> fragment m = None
          \<and> result_files ret = [(''pages/index.js'', ''hello'')])"
proof -
  have failed: "isError example_capped_state"
    by (simp add: example_capped_state_eq isError_def)
  from failed_run_fixed_message [OF example_run_capped example_net failed] failed
    example_run_capped
  show ?thesis
    by (simp add: example_capped_state_eq)
qed

text \<open>
  C8. The value a run returns is the record of the sandbox URL, the title "Fragment",
  the final file mapping and the final summary. Whenever the stored message has a
  fragment, the returned URL is the fragment's sandbox URL and the returned files are the
  fragment's files; a run that is not classified as failed stores a fragment.
\<close>

theorem return_value_mirrors_fragment:
  assumes run: "codeAgentFunction env pid prompt db = Inr (db', ret)"
    and net: "network_run env router maxIter prompt (get_previous_messages db pid)
                initial_state = Inr st"
  shows "ret = \<lparr>url = url ret, title = ''Fragment'', result_files = files st,
                 result_summary = summary st\<rparr>
    \<and> (\<exists>m. db' = db @ [m]
          \<and> (\<forall>frag. fragment m = Some frag \<longrightarrow>
                url ret = sandboxUrl frag \<and> result_files ret = fragment_files frag)
          \<and> (\<not> isError st \<longrightarrow> fragment m \<noteq> None))"
proof -
  from codeAgentFunction_Inr [OF run] net obtain t r u where
    db': "db' = save_result (isError st) (now env) pid u (parse_output env r)
                  (parse_output env t) st db" and
    ret: "ret = \<lparr>url = u, title = ''Fragment'', result_files = files st,
                  result_summary = summary st\<rparr>"
    by auto
  from db' ret show ?thesis
    by (simp add: save_result_def message_create_def)
qed

theorem return_value_mirrors_fragment_witness:
  "\<exists>m ret frag.
      codeAgentFunction (example_env example_done_state) ''p1'' ''create a hello world page'' []
        = Inr ([m], ret)
      \<and> fragment m = Some frag
      \<and> title ret = ''Fragment''
      \<and> url ret = sandboxUrl frag
      \<and> result_files ret = fragment_files frag
      \<and> result_summary ret = ''<task_summary>Built a page.</task_summary>''"
  using return_value_mirrors_fragment [OF example_run_done example_net] example_run_done
  by simp

text \<open>
  C10. The URL a run returns is "https:" followed by one backslash and the host of the
  sandbox for port 3000, so it never starts with "https://"; a stored fragment has the
  same URL.
\<close>

theorem sandbox_url_backslash:
  assumes run: "codeAgentFunction env pid prompt db = Inr (db', ret)"
  shows "\<exists>sandboxId sandbox.
           get_sandbox_id env = Inr sandboxId \<and> getSandbox env sandboxId = Inr sandbox
           \<and> url ret = ''https:'' @ [CHR 0x5C] @ getHost env sandbox 3000
           \<and> \<not> prefix ''https://'' (url ret)
           \<and> (\<exists>m. db' = db @ [m]
                 \<and> (\<forall>frag. fragment m = Some frag \<longrightarrow> sandboxUrl frag = url ret))"
proof -
  from codeAgentFunction_Inr [OF run] obtain sid result t r u where
    sid: "get_sandbox_id env = Inr sid" and
    u: "get_sandbox_url (getSandbox env) (getHost env) sid = Inr u" and
    db': "db' = save_result (isError result) (now env) pid u (parse_output env r)
                  (parse_output env t) result db" and
    ret: "ret = \<lparr>url = u, title = ''Fragment'', result_files = files result,
                  result_summary = summary result\<rparr>"
    by auto
  from u obtain sandbox where
    sb: "getSandbox env sid = Inr sandbox" and
    u_eq: "u = ''https:'' @ [CHR 0x5C] @ getHost env sandbox 3000"
    by (auto simp: get_sandbox_url_def await_def split: sum.splits)
  have "\<not> prefix ''https://'' u"
    by (simp add: u_eq)
  with sid sb u_eq db' ret show ?thesis
    by (simp add: save_result_def message_create_def)
qed

theorem sandbox_url_backslash_witness:
  "\<exists>db' ret.
      codeAgentFunction (example_env example_done_state) ''p1'' ''create a hello world page'' []
        = Inr (db', ret)
      \<and> url ret = ''https:'' @ [CHR 0x5C] @ ''3000-sbx1.e2b.app''
      \<and> \<not> prefix ''https://'' (url ret)"
  using sandbox_url_backslash [OF example_run_done] example_run_done
  by simp

end
